theory Spec2Isabelle
  imports Main "HOL-Library.Log_Nat"
begin

section \<open>trainutils.py: the glue layer of the convolutional-network trainer\<close>

text \<open>
  The module has four functions: \<open>get_argv\<close> (an \<open>argparse\<close> schema and its
  \<open>parse_args\<close> call), \<open>build_architecture\<close> (an \<open>if\<close>/\<open>elif\<close> chain over the
  architecture name), \<open>load_images_and_labels\<close> (a call of the external dataset loader
  and an optional division by 255.0) and \<open>write_training_report\<close> (a sequence of
  \<open>f.write\<close> calls).  Python exceptions are values of \<open>py_exception\<close>; a function that
  can raise returns \<open>py_exception + 'a\<close>, with \<open>Inl\<close> for the exception.
\<close>

subsection \<open>Exceptions\<close>

text \<open>
  \<open>ArgumentParser.error(message)\<close> writes the usage and the line
  \<open>prog: error: message\<close> to the standard error and leaves the process with status 2;
  the help action writes the help text and leaves with status 0.  The messages are kept
  as data: \<open>format_usage()\<close> and \<open>format_help()\<close> break their lines by the width of the
  terminal.  \<open>UnboundLocalError\<close> carries the name of the local variable, \<open>OSError\<close> the
  path that could not be opened, and \<open>LibraryError\<close> the class of an exception that an
  external library raises.
\<close>

datatype dest =
    Help | Architecture | Dataset | Normalize | Model_name | Grayscale
  | Image_size | Optimizer | Etha | Epochs | Batch_size

datatype argument_error =
    Expected_one_argument
  | Ignored_explicit_argument string
  | Invalid_value string string

datatype parser_message =
    Required_missing "string list"
  | Unrecognized_arguments "string list"
  | Ambiguous_option string "string list"
  | Argument_error dest argument_error

datatype parser_output = Help_text | Usage_and_error parser_message

datatype py_exception =
    UnboundLocalError string
  | SystemExit int parser_output
  | IndexError
  | TypeError
  | OverflowError
  | UnicodeEncodeError
  | OSError string
  | LibraryError string

fun exception_class :: "py_exception \<Rightarrow> string" where
  "exception_class (UnboundLocalError _) = ''UnboundLocalError''"
| "exception_class (SystemExit _ _) = ''SystemExit''"
| "exception_class IndexError = ''IndexError''"
| "exception_class TypeError = ''TypeError''"
| "exception_class OverflowError = ''OverflowError''"
| "exception_class UnicodeEncodeError = ''UnicodeEncodeError''"
| "exception_class (OSError _) = ''OSError''"
| "exception_class (LibraryError c) = c"

subsection \<open>Floats\<close>

text \<open>
  A Python \<open>float\<close> and a numpy \<open>float64\<close> are IEEE 754 binary64 values.  A finite
  one is modelled by its exact rational value, the negative zero apart.
\<close>

datatype py_float = Finite rat | NegZero | Inf bool | NaN

definition pow2 :: "int \<Rightarrow> rat" where
  "pow2 k = (if 0 \<le> k then 2 ^ nat k else 1 / 2 ^ nat (- k))"

definition round_half_even :: "rat \<Rightarrow> int" where
  "round_half_even q =
     (let f = \<lfloor>q\<rfloor>; r = q - of_int f
      in if r < 1 / 2 then f
         else if 1 / 2 < r then f + 1
         else if even f then f else f + 1)"

text \<open>The exponent \<open>e\<close> with \<open>2 ^ e \<le> q < 2 ^ (e + 1)\<close>, for a positive \<open>q\<close>.\<close>

definition ilog2 :: "rat \<Rightarrow> int" where
  "ilog2 q =
     (let (a, b) = quotient_of q; k = bitlen a - bitlen b
      in if pow2 k \<le> q then k else k - 1)"

text \<open>
  Rounding a magnitude to the nearest binary64 value, ties to even: 53 significant bits,
  exponents from -1022 (below, the subnormal spacing \<open>2 ^ -1074\<close>), and infinity from
  \<open>2 ^ 1024\<close> on.  The sign is carried apart, so that a negative result that rounds to
  zero is the negative zero.
\<close>

definition float_round :: "bool \<Rightarrow> rat \<Rightarrow> py_float" where
  "float_round neg q =
     (if q = 0 then (if neg then NegZero else Finite 0)
      else
        let e = max (ilog2 q) (- 1022);
            ulp = pow2 (e - 52);
            v = of_int (round_half_even (q / ulp)) * ulp
        in if pow2 1024 \<le> v then Inf neg
           else if v = 0 then (if neg then NegZero else Finite 0)
           else Finite (if neg then - v else v))"

text \<open>A decimal float literal of the source, such as \<open>0.001\<close> or \<open>255.0\<close>.\<close>

definition float_literal :: "rat \<Rightarrow> py_float" where
  "float_literal q = float_round (q < 0) \<bar>q\<bar>"

text \<open>
  \<open>x / d\<close> for a float \<open>x\<close> and a positive finite divisor of exact value \<open>d\<close> (the
  source divides by the literals \<open>255.0\<close> and \<open>60\<close> only).
\<close>

fun float_truediv :: "py_float \<Rightarrow> rat \<Rightarrow> py_float" where
  "float_truediv (Finite q) d = float_round (q < 0) (\<bar>q\<bar> / d)"
| "float_truediv NegZero d = NegZero"
| "float_truediv (Inf s) d = Inf s"
| "float_truediv NaN d = NaN"

subsection \<open>Strings\<close>

text \<open>Lower-casing of the ASCII letters, to say "differs only in letter case".\<close>

definition ascii_lower :: "char \<Rightarrow> char" where
  "ascii_lower c =
     (case map_of (zip ''ABCDEFGHIJKLMNOPQRSTUVWXYZ'' ''abcdefghijklmnopqrstuvwxyz'') c of
        Some l \<Rightarrow> l
      | None \<Rightarrow> c)"

subsection \<open>The parsed arguments\<close>

text \<open>
  The \<open>Namespace\<close> that \<open>parse_args\<close> returns, one field per \<open>dest\<close>.  The three
  required options have no default, so their attribute is \<open>None\<close> until the option is
  seen.
\<close>

record namespace =
  architecture :: "string option"
  dataset :: "string option"
  normalize :: bool
  model_name :: "string option"
  grayscale :: bool
  image_size :: int
  optimizer :: string
  etha :: py_float
  epochs :: int
  batch_size :: int

subsection \<open>The conversions \<open>str\<close>, \<open>bool\<close>, \<open>int\<close> and \<open>float\<close>\<close>

text \<open>
  \<open>type = bool\<close> makes \<open>argparse\<close> call \<open>bool(arg_string)\<close>: the truth value of a
  string, which is false for the empty string only.
\<close>

definition py_bool :: "string \<Rightarrow> bool" where
  "py_bool s = (s \<noteq> [])"

text \<open>
  \<open>int(s)\<close> and \<open>float(s)\<close> on strings of code points below 256: white space is
  stripped, a sign may come first, and digits may be grouped by single underscores.
  \<open>None\<close> stands for the \<open>ValueError\<close> of a string that is no number.
\<close>

definition is_space :: "char \<Rightarrow> bool" where
  "is_space c = (c \<in> set [CHR 0x09, CHR 0x0A, CHR 0x0B, CHR 0x0C, CHR 0x0D, CHR '' '',
                            CHR 0x85, CHR 0xA0])"

definition strip :: "string \<Rightarrow> string" where
  "strip s = rev (dropWhile is_space (rev (dropWhile is_space s)))"

definition digit_val :: "char \<Rightarrow> nat option" where
  "digit_val = map_of (zip ''0123456789'' [0, 1, 2, 3, 4, 5, 6, 7, 8, 9])"

fun digitpart :: "bool \<Rightarrow> string \<Rightarrow> nat list option" where
  "digitpart prev [] = (if prev then Some [] else None)"
| "digitpart prev (c # cs) =
     (case digit_val c of
        Some d \<Rightarrow> map_option ((#) d) (digitpart True cs)
      | None \<Rightarrow> if c = CHR ''_'' \<and> prev then digitpart False cs else None)"

definition decimal :: "nat list \<Rightarrow> int" where
  "decimal ds = foldl (\<lambda>a d. 10 * a + int d) 0 ds"

definition split_sign :: "string \<Rightarrow> bool \<times> string" where
  "split_sign s =
     (case s of
        [] \<Rightarrow> (False, [])
      | c # cs \<Rightarrow>
          if c = CHR ''-'' then (True, cs)
          else if c = CHR ''+'' then (False, cs)
          else (False, s))"

definition py_int :: "string \<Rightarrow> int option" where
  "py_int s =
     (let (neg, body) = split_sign (strip s)
      in map_option (\<lambda>ds. if neg then - decimal ds else decimal ds)
           (digitpart False body))"

text \<open>\<open>split_at P s\<close> cuts \<open>s\<close> at its first character that satisfies \<open>P\<close>.\<close>

fun split_at :: "(char \<Rightarrow> bool) \<Rightarrow> string \<Rightarrow> (string \<times> string) option" where
  "split_at P [] = None"
| "split_at P (c # cs) =
     (if P c then Some ([], cs)
      else map_option (\<lambda>(a, b). (c # a, b)) (split_at P cs))"

text \<open>The digits of an optional part of the mantissa: an absent part has none.\<close>

definition opt_digits :: "string \<Rightarrow> nat list option" where
  "opt_digits s = (if s = [] then Some [] else digitpart False s)"

definition mantissa :: "string \<Rightarrow> rat option" where
  "mantissa s =
     (let (ip, fp) = (case split_at (\<lambda>c. c = CHR ''.'') s of
                        None \<Rightarrow> (s, [])
                      | Some (a, b) \<Rightarrow> (a, b))
      in case (opt_digits ip, opt_digits fp) of
           (Some ds, Some fs) \<Rightarrow>
             if ds = [] \<and> fs = [] then None
             else Some (of_int (decimal (ds @ fs)) / 10 ^ length fs)
         | _ \<Rightarrow> None)"

definition exponent :: "string \<Rightarrow> int option" where
  "exponent s =
     (let (neg, body) = split_sign s
      in map_option (\<lambda>ds. if neg then - decimal ds else decimal ds)
           (digitpart False body))"

definition pow10 :: "int \<Rightarrow> rat" where
  "pow10 k = (if 0 \<le> k then 10 ^ nat k else 1 / 10 ^ nat (- k))"

definition py_float_of_string :: "string \<Rightarrow> py_float option" where
  "py_float_of_string s =
     (let (neg, body) = split_sign (strip s); low = map ascii_lower body
      in if low = ''inf'' \<or> low = ''infinity'' then Some (Inf neg)
         else if low = ''nan'' then Some NaN
         else
           case split_at (\<lambda>c. c = CHR ''e'' \<or> c = CHR ''E'') body of
             None \<Rightarrow> map_option (float_round neg) (mantissa body)
           | Some (m, e) \<Rightarrow>
               (case (mantissa m, exponent e) of
                  (Some q, Some k) \<Rightarrow> Some (float_round neg (q * pow10 k))
                | _ \<Rightarrow> None))"

subsection \<open>get_argv\<close>

text \<open>
  \<open>get_argv\<close> builds an \<open>ArgumentParser\<close> and calls its \<open>parse_args\<close>; what follows is
  that call for this parser, as the \<open>argparse\<close> of Python 3.6 (the version the parser's
  \<open>prog\<close> names) does it.  The option strings come in the order of their registration:
  \<open>ArgumentParser\<close> adds \<open>-h\<close>/\<open>--help\<close> itself, then come the ten \<open>add_argument\<close>
  calls.  All but the help action store one converted argument (\<open>nargs = None\<close>); only
  \<open>-a\<close>, \<open>-d\<close> and \<open>-mn\<close> are required.
\<close>

definition option_string_actions :: "(string \<times> dest) list" where
  "option_string_actions =
     [(''-h'', Help), (''--help'', Help),
      (''-a'', Architecture), (''--architecture'', Architecture),
      (''-d'', Dataset), (''--dataset'', Dataset),
      (''-n'', Normalize), (''--normalize'', Normalize),
      (''-mn'', Model_name), (''--model-name'', Model_name),
      (''-g'', Grayscale), (''--grayscale'', Grayscale),
      (''-i'', Image_size), (''--image-size'', Image_size),
      (''-o'', Optimizer), (''--optimizer'', Optimizer),
      (''-etha'', Etha), (''--etha'', Etha),
      (''-e'', Epochs), (''--epochs'', Epochs),
      (''-b'', Batch_size), (''--batch-size'', Batch_size)]"

definition required_actions :: "dest list" where
  "required_actions = [Architecture, Dataset, Model_name]"

fun action_name :: "dest \<Rightarrow> string" where
  "action_name Help = ''-h/--help''"
| "action_name Architecture = ''-a/--architecture''"
| "action_name Dataset = ''-d/--dataset''"
| "action_name Normalize = ''-n/--normalize''"
| "action_name Model_name = ''-mn/--model-name''"
| "action_name Grayscale = ''-g/--grayscale''"
| "action_name Image_size = ''-i/--image-size''"
| "action_name Optimizer = ''-o/--optimizer''"
| "action_name Etha = ''-etha/--etha''"
| "action_name Epochs = ''-e/--epochs''"
| "action_name Batch_size = ''-b/--batch-size''"

definition parser_error :: "parser_message \<Rightarrow> py_exception" where
  "parser_error m = SystemExit 2 (Usage_and_error m)"

text \<open>The defaults of the ten options, as \<open>parse_known_args\<close> sets them first.\<close>

definition default_namespace :: namespace where
  "default_namespace =
     \<lparr> architecture = None, dataset = None, normalize = True, model_name = None,
       grayscale = False, image_size = 64, optimizer = ''SGD'',
       etha = float_literal (1 / 1000), epochs = 30, batch_size = 32 \<rparr>"

fun startswith :: "string \<Rightarrow> string \<Rightarrow> bool" where
  "startswith s [] = True"
| "startswith [] (p # ps) = False"
| "startswith (c # cs) (p # ps) = (c = p \<and> startswith cs ps)"

text \<open>
  \<open>_get_option_tuples\<close>, called on strings of two characters or more that start with
  \<open>-\<close>: a string with two dashes may abbreviate a long option, up to its \<open>=\<close>; a string
  with one dash may carry the argument of a one-letter option, or abbreviate \<open>-mn\<close> or
  \<open>-etha\<close>.
\<close>

definition get_option_tuples :: "string \<Rightarrow> (dest \<times> string \<times> string option) list" where
  "get_option_tuples arg =
     (if arg ! 1 = CHR ''-'' then
        let (option_prefix, explicit_arg) =
              (case split_at (\<lambda>c. c = CHR ''='') arg of
                 None \<Rightarrow> (arg, None)
               | Some (p, e) \<Rightarrow> (p, Some e))
        in concat (map (\<lambda>(option_string, action).
                      if startswith option_string option_prefix
                      then [(action, option_string, explicit_arg)] else [])
                    option_string_actions)
      else
        concat (map (\<lambda>(option_string, action).
                  if option_string = take 2 arg
                  then [(action, option_string, Some (drop 2 arg))]
                  else if startswith option_string arg
                  then [(action, option_string, None)] else [])
                option_string_actions))"

text \<open>The matcher \<open>^-\d+$|^-\d*\.\d+$\<close>; \<open>$\<close> also matches before a last newline.\<close>

definition all_digits :: "string \<Rightarrow> bool" where
  "all_digits s = (\<forall>c \<in> set s. digit_val c \<noteq> None)"

definition negative_number :: "string \<Rightarrow> bool" where
  "negative_number s =
     (let t = (if s \<noteq> [] \<and> last s = CHR 0x0A then butlast s else s)
      in case t of
           [] \<Rightarrow> False
         | c # body \<Rightarrow>
             c = CHR ''-'' \<and>
             ((body \<noteq> [] \<and> all_digits body) \<or>
              (case split_at (\<lambda>c. c = CHR ''.'') body of
                 None \<Rightarrow> False
               | Some (a, b) \<Rightarrow> all_digits a \<and> b \<noteq> [] \<and> all_digits b)))"

text \<open>
  \<open>_parse_optional\<close>: a positional string, or an optional with the action it names (none
  when the parser has no such option), the option string and the explicit argument.
\<close>

datatype parsed = Positional | Optional "dest option" string "string option"

definition parse_optional :: "string \<Rightarrow> py_exception + parsed" where
  "parse_optional arg =
     (if arg = [] then Inr Positional
      else if hd arg \<noteq> CHR ''-'' then Inr Positional
      else case map_of option_string_actions arg of
        Some action \<Rightarrow> Inr (Optional (Some action) arg None)
      | None \<Rightarrow>
          if length arg = 1 then Inr Positional
          else
            case (case split_at (\<lambda>c. c = CHR ''='') arg of
                    None \<Rightarrow> None
                  | Some (option_string, explicit_arg) \<Rightarrow>
                      map_option (\<lambda>action. Optional (Some action) option_string (Some explicit_arg))
                        (map_of option_string_actions option_string)) of
              Some p \<Rightarrow> Inr p
            | None \<Rightarrow>
                (case get_option_tuples arg of
                   [] \<Rightarrow>
                     if negative_number arg then Inr Positional
                     else if CHR '' '' \<in> set arg then Inr Positional
                     else Inr (Optional None arg None)
                 | [(action, option_string, explicit_arg)] \<Rightarrow>
                     Inr (Optional (Some action) option_string explicit_arg)
                 | tuples \<Rightarrow>
                     Inl (parser_error
                            (Ambiguous_option arg (map (\<lambda>(a, s, e). s) tuples)))))"

text \<open>
  The pattern of the command line: \<open>Pat_A\<close> for an argument (the \<open>A\<close> of the source),
  \<open>Pat_O\<close> for an option, and the first \<open>--\<close> makes every later string an argument.
\<close>

datatype pattern = Pat_A | Pat_dashes | Pat_O "dest option" string "string option"

fun classify :: "string list \<Rightarrow> py_exception + (string \<times> pattern) list" where
  "classify [] = Inr []"
| "classify (arg # rest) =
     (if arg = ''--'' then Inr ((arg, Pat_dashes) # map (\<lambda>s. (s, Pat_A)) rest)
      else
        case parse_optional arg of
          Inl e \<Rightarrow> Inl e
        | Inr p \<Rightarrow>
            (case classify rest of
               Inl e \<Rightarrow> Inl e
             | Inr ps \<Rightarrow>
                 Inr ((arg, (case p of Positional \<Rightarrow> Pat_A | Optional a s e \<Rightarrow> Pat_O a s e)) # ps)))"

text \<open>The state of \<open>_parse_known_args\<close>: the namespace, the actions seen, the extras.\<close>

record pstate =
  ns :: namespace
  seen :: "dest list"
  extras :: "string list"

text \<open>
  \<open>take_action\<close> for a storing action: the argument string is converted by the type of
  the option and stored under its \<open>dest\<close>; a conversion that raises \<open>ValueError\<close> is an
  argument error.  One case is outside the typed namespace: Python 3.6 removes a string
  \<open>--\<close> from the arguments of an action before it converts them, so that the explicit
  argument of \<open>--normalize=--\<close> leaves an empty list in the attribute, where \<open>store\<close>
  converts the string \<open>--\<close> like any other.
\<close>

definition store :: "dest \<Rightarrow> string \<Rightarrow> namespace \<Rightarrow> py_exception + namespace" where
  "store action arg_string n =
     (case action of
        Help \<Rightarrow> Inl (SystemExit 0 Help_text)
      | Architecture \<Rightarrow> Inr (n\<lparr>architecture := Some arg_string\<rparr>)
      | Dataset \<Rightarrow> Inr (n\<lparr>dataset := Some arg_string\<rparr>)
      | Normalize \<Rightarrow> Inr (n\<lparr>normalize := py_bool arg_string\<rparr>)
      | Model_name \<Rightarrow> Inr (n\<lparr>model_name := Some arg_string\<rparr>)
      | Grayscale \<Rightarrow> Inr (n\<lparr>grayscale := py_bool arg_string\<rparr>)
      | Image_size \<Rightarrow>
          (case py_int arg_string of
             None \<Rightarrow> Inl (parser_error (Argument_error action (Invalid_value ''int'' arg_string)))
           | Some i \<Rightarrow> Inr (n\<lparr>image_size := i\<rparr>))
      | Optimizer \<Rightarrow> Inr (n\<lparr>optimizer := arg_string\<rparr>)
      | Etha \<Rightarrow>
          (case py_float_of_string arg_string of
             None \<Rightarrow> Inl (parser_error (Argument_error action (Invalid_value ''float'' arg_string)))
           | Some x \<Rightarrow> Inr (n\<lparr>etha := x\<rparr>))
      | Epochs \<Rightarrow>
          (case py_int arg_string of
             None \<Rightarrow> Inl (parser_error (Argument_error action (Invalid_value ''int'' arg_string)))
           | Some i \<Rightarrow> Inr (n\<lparr>epochs := i\<rparr>))
      | Batch_size \<Rightarrow>
          (case py_int arg_string of
             None \<Rightarrow> Inl (parser_error (Argument_error action (Invalid_value ''int'' arg_string)))
           | Some i \<Rightarrow> Inr (n\<lparr>batch_size := i\<rparr>)))"

definition take_action :: "pstate \<Rightarrow> dest \<Rightarrow> string \<Rightarrow> py_exception + pstate" where
  "take_action st action arg_string =
     (case store action arg_string (ns st) of
        Inl e \<Rightarrow> Inl e
      | Inr n \<Rightarrow> Inr (st\<lparr>ns := n, seen := action # seen st\<rparr>))"

text \<open>
  The help action takes no argument.  With an explicit argument after the one-letter
  \<open>-h\<close>, \<open>consume_optional\<close> reads the argument as further one-letter options
  (\<open>-hn\<close> is \<open>-h -n\<close>) before it takes any action; \<open>explicit_arg[0]\<close> on the empty
  argument of \<open>-h=\<close> raises \<open>IndexError\<close>.  \<open>ride_along explicit_arg next_is_A\<close> is the
  error of that walk, if any.
\<close>

fun ride_along :: "string \<Rightarrow> bool \<Rightarrow> py_exception option" where
  "ride_along [] next_is_A = Some IndexError"
| "ride_along (c # cs) next_is_A =
     (case map_of option_string_actions [CHR ''-'', c] of
        None \<Rightarrow> Some (parser_error (Argument_error Help (Ignored_explicit_argument (c # cs))))
      | Some action \<Rightarrow>
          if cs = [] then
            (if action = Help \<or> next_is_A then None
             else Some (parser_error (Argument_error action Expected_one_argument)))
          else if action = Help then ride_along cs next_is_A
          else None)"

text \<open>What happens at a help option: the walk's error, or the help text and status 0.\<close>

definition consume_help :: "string \<Rightarrow> string option \<Rightarrow> bool \<Rightarrow> py_exception" where
  "consume_help option_string explicit_arg next_is_A =
     (case explicit_arg of
        None \<Rightarrow> SystemExit 0 Help_text
      | Some x \<Rightarrow>
          if option_string ! 1 \<noteq> CHR ''-'' then
            (case ride_along x next_is_A of
               Some e \<Rightarrow> e
             | None \<Rightarrow> SystemExit 0 Help_text)
          else parser_error (Argument_error Help (Ignored_explicit_argument x)))"

definition next_is_A :: "(string \<times> pattern) list \<Rightarrow> bool" where
  "next_is_A rest = (case rest of (x, Pat_A) # _ \<Rightarrow> True | _ \<Rightarrow> False)"

text \<open>
  The loop of \<open>_parse_known_args\<close>.  The parser has no positional action, so a string
  that is neither an option nor the argument of one goes to the extras, and so does an
  option the parser does not know.  A storing option takes its explicit argument, or
  else the next string when that is an argument.
\<close>

fun parse_loop :: "pstate \<Rightarrow> (string \<times> pattern) list \<Rightarrow> py_exception + pstate" where
  "parse_loop st [] = Inr st"
| "parse_loop st ((arg, Pat_A) # rest) = parse_loop (st\<lparr>extras := extras st @ [arg]\<rparr>) rest"
| "parse_loop st ((arg, Pat_dashes) # rest) = parse_loop (st\<lparr>extras := extras st @ [arg]\<rparr>) rest"
| "parse_loop st ((arg, Pat_O None option_string explicit_arg) # rest) =
     parse_loop (st\<lparr>extras := extras st @ [arg]\<rparr>) rest"
| "parse_loop st ((arg, Pat_O (Some action) option_string explicit_arg) # rest) =
     (if action = Help then Inl (consume_help option_string explicit_arg (next_is_A rest))
      else
        case explicit_arg of
          Some x \<Rightarrow>
            (case take_action st action x of
               Inl e \<Rightarrow> Inl e
             | Inr st' \<Rightarrow> parse_loop st' rest)
        | None \<Rightarrow>
            (case rest of
               (x, Pat_A) # rest' \<Rightarrow>
                 (case take_action st action x of
                    Inl e \<Rightarrow> Inl e
                  | Inr st' \<Rightarrow> parse_loop st' rest')
             | _ \<Rightarrow> Inl (parser_error (Argument_error action Expected_one_argument))))"

text \<open>
  \<open>get_argv\<close> on the strings of \<open>sys.argv[1:]\<close>: the pattern, the loop, then the check
  of the required actions and, in \<open>parse_args\<close>, that of the extras.
\<close>

definition get_argv :: "string list \<Rightarrow> py_exception + namespace" where
  "get_argv args =
     (case classify args of
        Inl e \<Rightarrow> Inl e
      | Inr ps \<Rightarrow>
          (case parse_loop \<lparr>ns = default_namespace, seen = [], extras = []\<rparr> ps of
             Inl e \<Rightarrow> Inl e
           | Inr st \<Rightarrow>
               let missing = filter (\<lambda>a. a \<notin> set (seen st)) required_actions
               in if missing \<noteq> [] then
                    Inl (parser_error (Required_missing (map action_name missing)))
                  else if extras st \<noteq> [] then
                    Inl (parser_error (Unrecognized_arguments (extras st)))
                  else Inr (ns st)))"

text \<open>
  To speak about a command line: the option that a string names, as \<open>_parse_optional\<close>
  resolves it (exactly, before an \<open>=\<close>, by abbreviation, or as a one-letter option with
  its argument attached), and whether some string of the command line names a given
  option.
\<close>

definition option_of :: "string \<Rightarrow> dest option" where
  "option_of arg = (case parse_optional arg of Inr (Optional a s e) \<Rightarrow> a | _ \<Rightarrow> None)"

definition supplied :: "dest \<Rightarrow> string list \<Rightarrow> bool" where
  "supplied action args = (Some action \<in> set (map option_of args))"

fun pattern_action :: "pattern \<Rightarrow> dest option" where
  "pattern_action (Pat_O a s e) = a"
| "pattern_action _ = None"

definition actions_of :: "(string \<times> pattern) list \<Rightarrow> dest set" where
  "actions_of ps = {a. Some a \<in> set (map (pattern_action \<circ> snd) ps)}"

text \<open>
  Modelled from the spec: the main program \<open>trainer/main.py\<close>, which is not in the
  source.  The configuration is created once at program start from the command line, so
  the program calls \<open>get_argv\<close> first, and an exception of \<open>get_argv\<close> ends the process
  there; \<open>rest\<close> stands for all that the program does with the configuration afterwards
  (selecting the architecture, loading, training, writing the report), on the files.
  The exit status of the process is that of \<open>SystemExit\<close>, and 1 for any other
  exception.
\<close>

definition main_program ::
  "(namespace \<Rightarrow> 'fs \<Rightarrow> py_exception option \<times> 'fs) \<Rightarrow> string list \<Rightarrow> 'fs \<Rightarrow>
   py_exception option \<times> 'fs" where
  "main_program rest args fs =
     (case get_argv args of
        Inl e \<Rightarrow> (Some e, fs)
      | Inr argv \<Rightarrow> rest argv fs)"

fun exit_status :: "py_exception option \<Rightarrow> int" where
  "exit_status None = 0"
| "exit_status (Some (SystemExit status out)) = status"
| "exit_status (Some _) = 1"

subsection \<open>build_architecture\<close>

text \<open>
  The factories \<open>LeNet.build\<close>, \<open>KarpathyNet.build\<close>, \<open>MiniVGGNet.build\<close> and
  \<open>VGG16.build\<close> belong to the external package \<open>visutils.neuralnets.conv\<close>.  A model
  is the call that built it, with the keyword arguments the source passes.
\<close>

datatype model =
    LeNet_build int int int int
  | KarpathyNet_build int int int int bool
  | MiniVGGNet_build int int int int
  | VGG16_build

text \<open>
  No branch of the chain has an \<open>else\<close>: when none of the four comparisons holds, the
  local \<open>model\<close> was never assigned and \<open>return model\<close> raises \<open>UnboundLocalError\<close>.
  An \<open>architecture\<close> attribute that is \<open>None\<close> compares unequal to every string.
\<close>

definition build_architecture ::
  "namespace \<Rightarrow> int \<Rightarrow> int \<Rightarrow> int \<Rightarrow> int \<Rightarrow> py_exception + model" where
  "build_architecture argv width height depth classes =
     (if architecture argv = Some ''lenet'' then
        Inr (LeNet_build width height depth classes)
      else if architecture argv = Some ''karpathynet'' then
        Inr (KarpathyNet_build width height depth classes True)
      else if architecture argv = Some ''minivgg'' then
        Inr (MiniVGGNet_build width height depth classes)
      else if architecture argv = Some ''vgg16'' then
        Inr VGG16_build
      else Inl (UnboundLocalError ''model''))"

text \<open>
  Modelled from the spec: what the external factories return, which is not in the
  source.  A model built by \<open>LeNet\<close>, \<open>KarpathyNet\<close> or \<open>MiniVGGNet\<close> declares the
  requested input shape and class count; \<open>VGG16.build()\<close> is fixed at 224 x 224 x 3
  and 1000 classes (so says the module's \<open>description\<close> too).
\<close>

fun declared_geometry :: "model \<Rightarrow> (int \<times> int \<times> int) \<times> int" where
  "declared_geometry (LeNet_build w h d c) = ((w, h, d), c)"
| "declared_geometry (KarpathyNet_build w h d c _) = ((w, h, d), c)"
| "declared_geometry (MiniVGGNet_build w h d c) = ((w, h, d), c)"
| "declared_geometry VGG16_build = ((224, 224, 3), 1000)"

text \<open>The four names the chain compares with.\<close>

definition supported_names :: "string list" where
  "supported_names = [''lenet'', ''karpathynet'', ''minivgg'', ''vgg16'']"

subsection \<open>load_images_and_labels\<close>

text \<open>
  A numpy array: the type of its elements, its shape and its elements in row-major
  order.  Every \<open>uint8\<close>, \<open>float32\<close> and \<open>float64\<close> value is a binary64 value, so the
  elements are kept as \<open>py_float\<close>.
\<close>

datatype dtype = UInt8 | Float32 | Float64

record ndarray =
  dtype :: dtype
  shape :: "nat list"
  items :: "py_float list"

text \<open>\<open>data.astype('float')\<close>: the same values as \<open>float64\<close>.\<close>

definition astype_float :: "ndarray \<Rightarrow> ndarray" where
  "astype_float a = a\<lparr>dtype := Float64\<rparr>"

text \<open>\<open>a / d\<close> for a \<open>float64\<close> array and a positive float: every element is divided.\<close>

definition array_truediv :: "ndarray \<Rightarrow> rat \<Rightarrow> ndarray" where
  "array_truediv a d = a\<lparr>items := map (\<lambda>x. float_truediv x d) (items a)\<rparr>"

text \<open>
  The preprocessors and the loader belong to the external package \<open>visutils\<close>; the
  constructors of the preprocessors only keep their arguments.
  \<open>sdl_load width height grayscale imagepaths\<close> stands for
  \<open>SimpleDatasetLoader(preprocessors = [AspectAwarePreprocessor(width, height),
  ImageToArrayPreprocessor()], grayscale = grayscale).load(imagepaths, verbose = 500)\<close>,
  which returns the data and the labels or raises.  The function reads \<open>image_size\<close>
  and \<open>grayscale\<close> of \<open>argv\<close>.  Its own parameter \<open>normalize\<close> has the default \<open>True\<close>:
  \<open>None\<close> is a call that does not pass it.  The result is what the function has
  printed and what it returns or raises.
\<close>

definition load_images_and_labels ::
  "(int \<Rightarrow> int \<Rightarrow> bool \<Rightarrow> string list \<Rightarrow> py_exception + ndarray \<times> string list) \<Rightarrow>
   namespace \<Rightarrow> string list \<Rightarrow> bool option \<Rightarrow>
   string list \<times> (py_exception + ndarray \<times> string list)" where
  "load_images_and_labels sdl_load argv imagepaths normalize_arg =
     (let normalize = (case normalize_arg of None \<Rightarrow> True | Some b \<Rightarrow> b);
          imagesize = image_size argv;
          out = [''[INFO] loading images...'']
      in case sdl_load imagesize imagesize (grayscale argv) imagepaths of
           Inl e \<Rightarrow> (out, Inl e)
         | Inr (data, labels) \<Rightarrow>
             if normalize then
               (out @ [''[INFO] normalizing data...''],
                Inr (array_truediv (astype_float data) 255, labels))
             else (out, Inr (data, labels)))"

subsection \<open>Python values and their texts\<close>

text \<open>
  The values that the report formats: the attributes of the namespace, the entries of
  the optimizer's configuration, and the model parameters.  A character is a code point
  below 256.
\<close>

datatype py_value =
    PNone | PBool bool | PInt int | PFloat py_float | PStr string | PList "py_value list"

definition digit_char :: "int \<Rightarrow> char" where
  "digit_char d = ''0123456789abcdef'' ! nat d"

text \<open>The decimal digits of an integer that is not negative.\<close>

function show_nat :: "int \<Rightarrow> string" where
  "show_nat n = (if n < 10 then [digit_char n] else show_nat (n div 10) @ [digit_char (n mod 10)])"
  by pat_completeness auto
termination
  by (relation "measure nat") auto

declare show_nat.simps [simp del]

definition show_int :: "int \<Rightarrow> string" where
  "show_int i = (if i < 0 then CHR ''-'' # show_nat (- i) else show_nat i)"

definition ljust :: "nat \<Rightarrow> string \<Rightarrow> string" where
  "ljust w s = s @ replicate (w - length s) CHR '' ''"

definition rjust :: "nat \<Rightarrow> string \<Rightarrow> string" where
  "rjust w s = replicate (w - length s) CHR '' '' @ s"

definition zfill :: "nat \<Rightarrow> string \<Rightarrow> string" where
  "zfill w s = replicate (w - length s) CHR ''0'' @ s"

text \<open>
  \<open>repr\<close> of a float: the shortest decimal that reads back as the same float (the
  nearest one of that length, and of two equally near ones that with the even last
  digit), in positional notation when its decimal point lies between the places -4 and
  16, with an exponent otherwise.
\<close>

definition ilog10 :: "rat \<Rightarrow> int" where
  "ilog10 q =
     (let (a, b) = quotient_of q; k = int (length (show_nat a)) - int (length (show_nat b))
      in if pow10 k \<le> q then k else k - 1)"

definition digits_for :: "rat \<Rightarrow> int \<Rightarrow> nat \<Rightarrow> (int \<times> int) option" where
  "digits_for x e10 k =
     (let e = e10 - int k + 1; sc = pow10 e; lo = \<lfloor>x / sc\<rfloor>
      in case filter (\<lambda>m. float_round False (of_int m * sc) = Finite x) [lo, lo + 1] of
           [] \<Rightarrow> None
         | [m] \<Rightarrow> Some (m, e)
         | m # m' # _ \<Rightarrow>
             Some (if x - of_int m * sc < of_int m' * sc - x then m
                   else if of_int m' * sc - x < x - of_int m * sc then m'
                   else if even m then m else m', e))"

text \<open>The search for the least number of digits; seventeen digits always suffice.\<close>

function shortest_from :: "rat \<Rightarrow> int \<Rightarrow> nat \<Rightarrow> int \<times> int" where
  "shortest_from x e10 k =
     (if 17 \<le> k then (round_half_even (x / pow10 (e10 - 16)), e10 - 16)
      else case digits_for x e10 k of
             Some r \<Rightarrow> r
           | None \<Rightarrow> shortest_from x e10 (Suc k))"
  by pat_completeness auto
termination
  by (relation "measure (\<lambda>(x, e10, k). 17 - k)") auto

declare shortest_from.simps [simp del]

definition shortest_decimal :: "rat \<Rightarrow> int \<times> int" where
  "shortest_decimal x = shortest_from x (ilog10 x) 1"

definition strip_zeros :: "string \<Rightarrow> string" where
  "strip_zeros s = rev (dropWhile (\<lambda>c. c = CHR ''0'') (rev s))"

definition repr_positive :: "rat \<Rightarrow> string" where
  "repr_positive x =
     (let (m, e) = shortest_decimal x;
          all = show_nat m;
          ds = strip_zeros all;
          decpt = int (length all) + e
      in if decpt \<le> - 4 \<or> 16 < decpt then
           hd ds # (if tl ds = [] then [] else CHR ''.'' # tl ds) @ ''e'' @
           (if decpt - 1 < 0 then ''-'' else ''+'') @ zfill 2 (show_nat \<bar>decpt - 1\<bar>)
         else if decpt \<le> 0 then ''0.'' @ replicate (nat (- decpt)) CHR ''0'' @ ds
         else if int (length ds) \<le> decpt then
           ds @ replicate (nat decpt - length ds) CHR ''0'' @ ''.0''
         else take (nat decpt) ds @ ''.'' @ drop (nat decpt) ds)"

fun float_repr :: "py_float \<Rightarrow> string" where
  "float_repr NaN = ''nan''"
| "float_repr (Inf neg) = (if neg then ''-inf'' else ''inf'')"
| "float_repr NegZero = ''-0.0''"
| "float_repr (Finite q) =
     (if q = 0 then ''0.0''
      else if q < 0 then CHR ''-'' # repr_positive (- q)
      else repr_positive q)"









text \<open>
  \<open>format(v, '10')\<close> and \<open>format(v, '12')\<close>: a string is padded on the right, a number on
  the left, and a boolean is formatted as the integer it is; \<open>None\<close> and a list do not
  take a format string.
\<close>

fun format_width :: "nat \<Rightarrow> py_value \<Rightarrow> py_exception + string" where
  "format_width w (PStr s) = Inr (ljust w s)"
| "format_width w (PInt i) = Inr (rjust w (show_int i))"
| "format_width w (PBool b) = Inr (rjust w (if b then ''1'' else ''0''))"
| "format_width w (PFloat x) = Inr (rjust w (float_repr x))"
| "format_width w PNone = Inl TypeError"
| "format_width w (PList vs) = Inl TypeError"



subsection \<open>write_training_report\<close>

text \<open>
  The dictionary \<open>modelparams\<close> with its six keys: \<open>optimizer\<close> is the optimizer object,
  kept as the items of the dictionary its \<open>get_config()\<close> returns, and \<open>model_structure\<close>
  is the model, kept as the lines its \<open>summary\<close> passes to \<open>print_fn\<close>.
\<close>

record modelparams =
  imagesize :: py_value
  optimizer_config :: "(string \<times> py_value) list"
  loss_function :: py_value
  metrics :: py_value
  elapsed_time :: py_value
  model_structure :: "string list"









text \<open>
  To state what the report holds: the values that take a format string, the text of
  such a value, and the nine sections of the report in the order of the code.
\<close>

fun formattable :: "py_value \<Rightarrow> bool" where
  "formattable PNone = False"
| "formattable (PList vs) = False"
| "formattable v = True"






section \<open>Properties\<close>

subsection \<open>The loop of the parser\<close>

lemma actions_of_simps [simp]:
  "actions_of [] = {}"
  "actions_of ((arg, Pat_A) # ps) = actions_of ps"
  "actions_of ((arg, Pat_dashes) # ps) = actions_of ps"
  "actions_of ((arg, Pat_O None s e) # ps) = actions_of ps"
  "actions_of ((arg, Pat_O (Some a) s e) # ps) = insert a (actions_of ps)"
  by (auto simp: actions_of_def)

lemma actions_of_append [simp]: "actions_of (ps @ qs) = actions_of ps \<union> actions_of qs"
  by (auto simp: actions_of_def)

lemma actions_of_all_A [simp]: "actions_of (map (\<lambda>s. (s, Pat_A)) rest) = {}"
  by (auto simp: actions_of_def)

lemma classify_actions:
  "classify args = Inr ps \<Longrightarrow> a \<in> actions_of ps \<Longrightarrow> supplied a args"
proof (induction args arbitrary: ps)
  case Nil
  then show ?case by simp
next
  case (Cons arg rest)
  show ?case
  proof (cases "arg = ''--''")
    case True
    with Cons.prems show ?thesis by auto
  next
    case False
    with Cons.prems obtain p qs where p: "parse_optional arg = Inr p"
      and qs: "classify rest = Inr qs"
      and ps: "ps = (arg, (case p of Positional \<Rightarrow> Pat_A | Optional a s e \<Rightarrow> Pat_O a s e)) # qs"
      by (auto split: sum.splits)
    from Cons.prems(2) ps have "a \<in> actions_of qs \<or> option_of arg = Some a"
      using p by (cases p; cases "case p of Optional a s e \<Rightarrow> a | _ \<Rightarrow> None") (auto simp: option_of_def split: parsed.splits option.splits)
    then show ?thesis
      using Cons.IH [OF qs] by (auto simp: supplied_def)
  qed
qed

lemma take_action_seen:
  "take_action st a x = Inr st' \<Longrightarrow> seen st' = a # seen st \<and> extras st' = extras st"
  by (auto simp: take_action_def split: sum.splits)

lemma take_action_ns:
  "take_action st a x = Inr st' \<Longrightarrow> store a x (ns st) = Inr (ns st')"
  by (auto simp: take_action_def split: sum.splits)

lemma parse_loop_frame:
  assumes step: "\<And>a x n n'. a \<noteq> D \<Longrightarrow> store a x n = Inr n' \<Longrightarrow> P n \<Longrightarrow> P n'"
  shows "parse_loop st ps = Inr st' \<Longrightarrow> D \<notin> actions_of ps \<Longrightarrow> P (ns st) \<Longrightarrow> P (ns st')"
proof (induction st ps rule: parse_loop.induct)
  case (5 st arg action option_string explicit_arg rest)
  from "5.prems"(2) have ne: "action \<noteq> D" and rest: "D \<notin> actions_of rest" by auto
  from "5.prems"(1) have nh: "action \<noteq> Help" by (auto split: if_splits)
  show ?case
  proof (cases explicit_arg)
    case (Some x)
    with "5.prems"(1) nh obtain st1 where t: "take_action st action x = Inr st1"
      and l: "parse_loop st1 rest = Inr st'" by (auto split: sum.splits)
    from step [OF ne take_action_ns [OF t] "5.prems"(3)] have "P (ns st1)" .
    with "5.IH"(2) [OF nh Some t l rest] show ?thesis .
  next
    case None
    with "5.prems"(1) nh obtain x rest' st1 where r: "rest = (x, Pat_A) # rest'"
      and t: "take_action st action x = Inr st1"
      and l: "parse_loop st1 rest' = Inr st'"
      by (auto split: sum.splits list.splits pattern.splits prod.splits)
    from step [OF ne take_action_ns [OF t] "5.prems"(3)] have p1: "P (ns st1)" .
    from rest r have "D \<notin> actions_of rest'" by simp
    from "5.IH"(1) [OF nh None r refl refl t l this p1] show ?thesis .
  qed
qed simp_all

lemma parse_loop_seen:
  "parse_loop st ps = Inr st' \<Longrightarrow> set (seen st') \<subseteq> set (seen st) \<union> actions_of ps"
proof (induction st ps rule: parse_loop.induct)
  case (5 st arg action option_string explicit_arg rest)
  from "5.prems"(1) have nh: "action \<noteq> Help" by (auto split: if_splits)
  show ?case
  proof (cases explicit_arg)
    case (Some x)
    with "5.prems"(1) nh obtain st1 where t: "take_action st action x = Inr st1"
      and l: "parse_loop st1 rest = Inr st'" by (auto split: sum.splits)
    from "5.IH"(2) [OF nh Some t l] take_action_seen [OF t] show ?thesis by auto
  next
    case None
    with "5.prems"(1) nh obtain x rest' st1 where r: "rest = (x, Pat_A) # rest'"
      and t: "take_action st action x = Inr st1"
      and l: "parse_loop st1 rest' = Inr st'"
      by (auto split: sum.splits list.splits pattern.splits prod.splits)
    from "5.IH"(1) [OF nh None r refl refl t l] take_action_seen [OF t] r show ?thesis by auto
  qed
qed auto

lemma store_error:
  "store a x n = Inl e \<Longrightarrow> a \<noteq> Help \<Longrightarrow> \<exists>m. e = parser_error m"
  by (cases a) (auto simp: store_def split: option.splits)

lemma take_action_error:
  "take_action st a x = Inl e \<Longrightarrow> a \<noteq> Help \<Longrightarrow> \<exists>m. e = parser_error m"
  by (auto simp: take_action_def split: sum.splits dest: store_error)

lemma parse_optional_error:
  "parse_optional arg = Inl e \<Longrightarrow> \<exists>m. e = parser_error m"
  by (auto simp: parse_optional_def split: if_splits option.splits list.splits prod.splits)

lemma classify_error:
  "classify args = Inl e \<Longrightarrow> \<exists>m. e = parser_error m"
  by (induction args) (auto split: if_splits sum.splits dest: parse_optional_error)

lemma next_is_A_iff: "next_is_A rest \<longleftrightarrow> (\<exists>x rest'. rest = (x, Pat_A) # rest')"
proof (cases rest)
  case Nil
  then show ?thesis by (simp add: next_is_A_def)
next
  case (Cons p rest')
  obtain x pat where "p = (x, pat)" by (cases p)
  with Cons show ?thesis by (cases pat) (simp_all add: next_is_A_def)
qed

lemma parse_loop_error:
  "parse_loop st ps = Inl e \<Longrightarrow> Help \<notin> actions_of ps \<Longrightarrow> \<exists>m. e = parser_error m"
proof (induction st ps rule: parse_loop.induct)
  case (5 st arg action option_string explicit_arg rest)
  from "5.prems"(2) have nh: "action \<noteq> Help" and rest: "Help \<notin> actions_of rest" by auto
  show ?case
  proof (cases explicit_arg)
    case (Some x)
    show ?thesis
    proof (cases "take_action st action x")
      case (Inl e')
      with "5.prems"(1) nh Some have "e = e'" by simp
      with take_action_error [OF Inl nh] show ?thesis by simp
    next
      case (Inr st1)
      with "5.prems"(1) nh Some have "parse_loop st1 rest = Inl e" by simp
      from "5.IH"(2) [OF nh Some Inr this rest] show ?thesis .
    qed
  next
    case None
    show ?thesis
    proof (cases "next_is_A rest")
      case False
      with "5.prems"(1) nh None have "e = parser_error (Argument_error action Expected_one_argument)"
        by (auto simp: next_is_A_def split: list.splits pattern.splits prod.splits)
      then show ?thesis by blast
    next
      case True
      then obtain x rest' where r: "rest = (x, Pat_A) # rest'"
        by (auto simp: next_is_A_iff)
      show ?thesis
      proof (cases "take_action st action x")
        case (Inl e')
        with "5.prems"(1) nh None r have "e = e'" by simp
        with take_action_error [OF Inl nh] show ?thesis by simp
      next
        case (Inr st1)
        with "5.prems"(1) nh None r have l: "parse_loop st1 rest' = Inl e" by simp
        from rest r have "Help \<notin> actions_of rest'" by simp
        from "5.IH"(1) [OF nh None r refl refl Inr l this] show ?thesis .
      qed
    qed
  qed
qed simp_all



lemma classify_fst: "classify args = Inr ps \<Longrightarrow> map fst ps = args"
  by (induction args arbitrary: ps) (auto split: if_splits sum.splits simp: comp_def)


lemma ride_along_cases:
  "ride_along x b = Some e \<Longrightarrow> e = IndexError \<or> (\<exists>m. e = parser_error m)"
  by (induction x b rule: ride_along.induct) (auto split: option.splits if_splits)

lemma consume_help_cases:
  "consume_help s x b = SystemExit 0 Help_text \<or> consume_help s x b = IndexError \<or>
   (\<exists>m. consume_help s x b = parser_error m)"
  by (auto simp: consume_help_def split: option.splits dest: ride_along_cases)

lemma parse_loop_error_cases:
  "parse_loop st ps = Inl e \<Longrightarrow>
   e = SystemExit 0 Help_text \<or> e = IndexError \<or> (\<exists>m. e = parser_error m)"
proof (induction st ps rule: parse_loop.induct)
  case (5 st arg action option_string explicit_arg rest)
  show ?case
  proof (cases "action = Help")
    case True
    with "5.prems" consume_help_cases [of option_string explicit_arg "next_is_A rest"]
    show ?thesis by auto
  next
    case nh: False
    show ?thesis
    proof (cases explicit_arg)
      case (Some x)
      show ?thesis
      proof (cases "take_action st action x")
        case (Inl e')
        with "5.prems"(1) nh Some have "e = e'" by simp
        with take_action_error [OF Inl nh] show ?thesis by simp
      next
        case (Inr st1)
        with "5.prems"(1) nh Some have "parse_loop st1 rest = Inl e" by simp
        from "5.IH"(2) [OF nh Some Inr this] show ?thesis .
      qed
    next
      case None
      show ?thesis
      proof (cases "next_is_A rest")
        case False
        with "5.prems"(1) nh None have "e = parser_error (Argument_error action Expected_one_argument)"
          by (auto simp: next_is_A_def split: list.splits pattern.splits prod.splits)
        then show ?thesis by blast
      next
        case True
        then obtain x rest' where r: "rest = (x, Pat_A) # rest'"
          by (auto simp: next_is_A_iff)
        show ?thesis
        proof (cases "take_action st action x")
          case (Inl e')
          with "5.prems"(1) nh None r have "e = e'" by simp
          with take_action_error [OF Inl nh] show ?thesis by simp
        next
          case (Inr st1)
          with "5.prems"(1) nh None r have l: "parse_loop st1 rest' = Inl e" by simp
          from "5.IH"(1) [OF nh None r refl refl Inr l] show ?thesis .
        qed
      qed
    qed
  qed
qed simp_all

lemma store_frame:
  "store a x n = Inr n' \<Longrightarrow>
     (a \<noteq> Normalize \<longrightarrow> normalize n' = normalize n) \<and>
     (a \<noteq> Grayscale \<longrightarrow> grayscale n' = grayscale n) \<and>
     (a \<noteq> Image_size \<longrightarrow> image_size n' = image_size n) \<and>
     (a \<noteq> Optimizer \<longrightarrow> optimizer n' = optimizer n) \<and>
     (a \<noteq> Etha \<longrightarrow> etha n' = etha n) \<and>
     (a \<noteq> Epochs \<longrightarrow> epochs n' = epochs n) \<and>
     (a \<noteq> Batch_size \<longrightarrow> batch_size n' = batch_size n)"
  by (cases a) (auto simp: store_def split: option.splits)

lemma get_argv_Inr:
  assumes "get_argv args = Inr n"
  obtains ps st where "classify args = Inr ps"
    and "parse_loop \<lparr>ns = default_namespace, seen = [], extras = []\<rparr> ps = Inr st"
    and "filter (\<lambda>a. a \<notin> set (seen st)) required_actions = []"
    and "extras st = []" and "n = ns st"
  using assms by (auto simp: get_argv_def Let_def split: sum.splits if_splits)

lemma get_argv_unsupplied:
  assumes "get_argv args = Inr n" and "\<not> supplied D args"
    and step: "\<And>a x n n'. a \<noteq> D \<Longrightarrow> store a x n = Inr n' \<Longrightarrow> P n \<Longrightarrow> P n'"
    and init: "P default_namespace"
  shows "P n"
proof -
  from assms(1) obtain ps st where c: "classify args = Inr ps"
    and l: "parse_loop \<lparr>ns = default_namespace, seen = [], extras = []\<rparr> ps = Inr st"
    and n: "n = ns st" by (rule get_argv_Inr)
  from classify_actions [OF c] assms(2) have "D \<notin> actions_of ps" by blast
  from parse_loop_frame [of D P, OF step l this] init n show ?thesis by simp
qed






subsection \<open>get_argv\<close>

lemma get_argv_required_only:
  "get_argv [''-a'', ''lenet'', ''-d'', ''data'', ''-mn'', ''m1''] =
     Inr \<lparr> architecture = Some ''lenet'', dataset = Some ''data'', normalize = True,
           model_name = Some ''m1'', grayscale = False, image_size = 64, optimizer = ''SGD'',
           etha = float_literal (1 / 1000), epochs = 30, batch_size = 32 \<rparr>"
  by code_simp




text \<open>
  C8.  An option that no string of the command line names keeps its default:
  \<open>normalize\<close> true, \<open>grayscale\<close> false, \<open>image_size\<close> 64, \<open>optimizer\<close> \<open>SGD\<close>, \<open>etha\<close>
  the float of the literal \<open>0.001\<close>, \<open>epochs\<close> 30 and \<open>batch_size\<close> 32.
\<close>

theorem get_argv_defaults:
  assumes "get_argv args = Inr n"
  shows "(\<not> supplied Normalize args \<longrightarrow> normalize n = True) \<and>
         (\<not> supplied Grayscale args \<longrightarrow> grayscale n = False) \<and>
         (\<not> supplied Image_size args \<longrightarrow> image_size n = 64) \<and>
         (\<not> supplied Optimizer args \<longrightarrow> optimizer n = ''SGD'') \<and>
         (\<not> supplied Etha args \<longrightarrow> etha n = float_literal (1 / 1000)) \<and>
         (\<not> supplied Epochs args \<longrightarrow> epochs n = 30) \<and>
         (\<not> supplied Batch_size args \<longrightarrow> batch_size n = 32)"
proof -
  have "normalize n = True" if "\<not> supplied Normalize args"
    by (rule get_argv_unsupplied [OF assms that, of "\<lambda>n. normalize n = True"])
       (auto dest: store_frame simp: default_namespace_def)
  moreover have "grayscale n = False" if "\<not> supplied Grayscale args"
    by (rule get_argv_unsupplied [OF assms that, of "\<lambda>n. grayscale n = False"])
       (auto dest: store_frame simp: default_namespace_def)
  moreover have "image_size n = 64" if "\<not> supplied Image_size args"
    by (rule get_argv_unsupplied [OF assms that, of "\<lambda>n. image_size n = 64"])
       (auto dest: store_frame simp: default_namespace_def)
  moreover have "optimizer n = ''SGD''" if "\<not> supplied Optimizer args"
    by (rule get_argv_unsupplied [OF assms that, of "\<lambda>n. optimizer n = ''SGD''"])
       (auto dest: store_frame simp: default_namespace_def)
  moreover have "etha n = float_literal (1 / 1000)" if "\<not> supplied Etha args"
    by (rule get_argv_unsupplied [OF assms that, of "\<lambda>n. etha n = float_literal (1 / 1000)"])
       (auto dest: store_frame simp: default_namespace_def)
  moreover have "epochs n = 30" if "\<not> supplied Epochs args"
    by (rule get_argv_unsupplied [OF assms that, of "\<lambda>n. epochs n = 30"])
       (auto dest: store_frame simp: default_namespace_def)
  moreover have "batch_size n = 32" if "\<not> supplied Batch_size args"
    by (rule get_argv_unsupplied [OF assms that, of "\<lambda>n. batch_size n = 32"])
       (auto dest: store_frame simp: default_namespace_def)
  ultimately show ?thesis by blast
qed

lemma required_only_supplies_no_optional:
  "\<not> supplied Normalize [''-a'', ''lenet'', ''-d'', ''data'', ''-mn'', ''m1''] \<and>
   \<not> supplied Grayscale [''-a'', ''lenet'', ''-d'', ''data'', ''-mn'', ''m1''] \<and>
   \<not> supplied Image_size [''-a'', ''lenet'', ''-d'', ''data'', ''-mn'', ''m1''] \<and>
   \<not> supplied Optimizer [''-a'', ''lenet'', ''-d'', ''data'', ''-mn'', ''m1''] \<and>
   \<not> supplied Etha [''-a'', ''lenet'', ''-d'', ''data'', ''-mn'', ''m1''] \<and>
   \<not> supplied Epochs [''-a'', ''lenet'', ''-d'', ''data'', ''-mn'', ''m1''] \<and>
   \<not> supplied Batch_size [''-a'', ''lenet'', ''-d'', ''data'', ''-mn'', ''m1'']"
  by code_simp

theorem get_argv_defaults_witness:
  "(\<exists>n. get_argv [''-a'', ''lenet'', ''-d'', ''data'', ''-mn'', ''m1''] = Inr n \<and>
        normalize n = True \<and> grayscale n = False \<and> image_size n = 64 \<and>
        optimizer n = ''SGD'' \<and> etha n = float_literal (1 / 1000) \<and> epochs n = 30 \<and>
        batch_size n = 32) \<and>
   \<not> supplied Normalize [''-a'', ''lenet'', ''-d'', ''data'', ''-mn'', ''m1''] \<and>
   \<not> supplied Grayscale [''-a'', ''lenet'', ''-d'', ''data'', ''-mn'', ''m1''] \<and>
   \<not> supplied Image_size [''-a'', ''lenet'', ''-d'', ''data'', ''-mn'', ''m1''] \<and>
   \<not> supplied Optimizer [''-a'', ''lenet'', ''-d'', ''data'', ''-mn'', ''m1''] \<and>
   \<not> supplied Etha [''-a'', ''lenet'', ''-d'', ''data'', ''-mn'', ''m1''] \<and>
   \<not> supplied Epochs [''-a'', ''lenet'', ''-d'', ''data'', ''-mn'', ''m1''] \<and>
   \<not> supplied Batch_size [''-a'', ''lenet'', ''-d'', ''data'', ''-mn'', ''m1'']"
  using get_argv_defaults [OF get_argv_required_only] required_only_supplies_no_optional
        get_argv_required_only
  by simp

text \<open>
  C7.  When no string of the command line names a required option, \<open>get_argv\<close> returns
  no configuration: the process ends in the parser, before the program does anything
  with the files, so that no report is written.  It ends with the usage, an error
  message and status 2, unless a string names the help option: \<open>-h\<close> or \<open>--help\<close>
  prints the help text and ends with status 0 (and the walk after \<open>-h=\<close> stops on an
  \<open>IndexError\<close>).
\<close>

theorem missing_required_exits:
  assumes "a \<in> set required_actions" and "\<not> supplied a args"
  shows "\<exists>e. get_argv args = Inl e \<and> main_program rest args fs = (Some e, fs) \<and>
             (e = SystemExit 0 Help_text \<or> e = IndexError \<or>
              (\<exists>m. e = SystemExit 2 (Usage_and_error m))) \<and>
             (\<not> supplied Help args \<longrightarrow> (\<exists>m. e = SystemExit 2 (Usage_and_error m)))"
proof (cases "classify args")
  case (Inl e)
  then have g: "get_argv args = Inl e" by (simp add: get_argv_def)
  from classify_error [OF Inl] obtain m where "e = SystemExit 2 (Usage_and_error m)"
    by (auto simp: parser_error_def)
  with g show ?thesis by (auto simp: main_program_def)
next
  case (Inr ps)
  from classify_actions [OF Inr] assms(2) have na: "a \<notin> actions_of ps" by blast
  show ?thesis
  proof (cases "parse_loop \<lparr>ns = default_namespace, seen = [], extras = []\<rparr> ps")
    case (Inl e)
    with Inr have g: "get_argv args = Inl e" by (simp add: get_argv_def)
    have h: "\<exists>m. e = SystemExit 2 (Usage_and_error m)" if "\<not> supplied Help args"
    proof -
      from classify_actions [OF Inr] that have "Help \<notin> actions_of ps" by blast
      from parse_loop_error [OF Inl this] show ?thesis by (simp add: parser_error_def)
    qed
    from parse_loop_error_cases [OF Inl] g h show ?thesis
      by (auto simp: main_program_def parser_error_def)
  next
    case (Inr st)
    from parse_loop_seen [OF Inr] na have "a \<notin> set (seen st)" by auto
    with assms(1) have "filter (\<lambda>a. a \<notin> set (seen st)) required_actions \<noteq> []"
      by (auto simp: filter_empty_conv)
    with \<open>classify args = Inr ps\<close> Inr
    have "get_argv args = Inl (parser_error (Required_missing
            (map action_name (filter (\<lambda>a. a \<notin> set (seen st)) required_actions))))"
      by (simp add: get_argv_def Let_def)
    then show ?thesis by (auto simp: main_program_def parser_error_def)
  qed
qed

lemma dataset_missing:
  "Dataset \<in> set required_actions \<and>
   \<not> supplied Dataset [''-a'', ''lenet'', ''-mn'', ''m1''] \<and>
   \<not> supplied Help [''-a'', ''lenet'', ''-mn'', ''m1''] \<and>
   get_argv [''-a'', ''lenet'', ''-mn'', ''m1''] =
     Inl (SystemExit 2 (Usage_and_error (Required_missing [''-d/--dataset''])))"
  by code_simp

theorem missing_required_exits_witness:
  "Dataset \<in> set required_actions \<and>
   \<not> supplied Dataset [''-a'', ''lenet'', ''-mn'', ''m1''] \<and>
   \<not> supplied Help [''-a'', ''lenet'', ''-mn'', ''m1''] \<and>
   get_argv [''-a'', ''lenet'', ''-mn'', ''m1''] =
     Inl (SystemExit 2 (Usage_and_error (Required_missing [''-d/--dataset'']))) \<and>
   main_program (\<lambda>argv fs. (None, fs(''output/reports/m1_report.txt'' \<mapsto> ''report'')))
       [''-a'', ''lenet'', ''-mn'', ''m1''] (Map.empty :: string \<rightharpoonup> string) =
     (Some (SystemExit 2 (Usage_and_error (Required_missing [''-d/--dataset'']))), Map.empty)"
  using missing_required_exits [of Dataset "[''-a'', ''lenet'', ''-mn'', ''m1'']"
          "\<lambda>argv fs. (None, fs(''output/reports/m1_report.txt'' \<mapsto> ''report''))"
          "Map.empty :: string \<rightharpoonup> string"]
        dataset_missing
  by auto

text \<open>
  With \<open>-a lenet -h\<close> the options \<open>--dataset\<close> and \<open>--model-name\<close> are missing, and the
  process ends with the help text and status 0.
\<close>

theorem help_exits_zero:
  "\<not> supplied Dataset [''-a'', ''lenet'', ''-h''] \<and>
   get_argv [''-a'', ''lenet'', ''-h''] = Inl (SystemExit 0 Help_text) \<and>
   exit_status (Some (SystemExit 0 Help_text)) = 0"
  by code_simp

subsection \<open>Floats\<close>

lemma pow2_powi: "pow2 k = 2 powi k"
  by (simp add: pow2_def power_int_def field_simps power_inverse)

lemma pow2_pos: "0 < pow2 k"
  by (simp add: pow2_powi)

lemma pow2_mono: "j \<le> k \<Longrightarrow> pow2 j \<le> pow2 k"
  by (simp add: pow2_powi power_int_increasing)

lemma pow2_Suc: "pow2 (k + 1) = 2 * pow2 k"
  by (simp add: pow2_powi power_int_add)

lemma pow2_diff: "pow2 (j - k) = pow2 j / pow2 k"
  by (simp add: pow2_powi power_int_diff)

lemma ilog2_lower:
  assumes "0 < q"
  shows "pow2 (ilog2 q) \<le> q"
proof -
  obtain a b where ab: "quotient_of q = (a, b)" by (cases "quotient_of q")
  then have b: "0 < b" and q: "q = of_int a / of_int b"
    by (auto dest: quotient_of_denom_pos quotient_of_div)
  with assms have a: "0 < a" by (simp add: zero_less_divide_iff)
  define k where "k = bitlen a - bitlen b"
  from bitlen_bounds [OF a] have la: "(2::int) ^ nat (bitlen a - 1) \<le> a" by simp
  from bitlen_bounds [OF b] have lb: "b < 2 ^ nat (bitlen b)" by simp
  from a b have ga: "1 \<le> bitlen a" and gb: "1 \<le> bitlen b"
    by (auto simp: bitlen_alt_def)
  have "pow2 (k - 1) = pow2 (bitlen a - 1) / pow2 (bitlen b)"
    unfolding k_def by (simp add: pow2_diff [symmetric] algebra_simps)
  also have "\<dots> = 2 ^ nat (bitlen a - 1) / 2 ^ nat (bitlen b)"
    using ga gb by (simp add: pow2_def)
  also have "\<dots> \<le> of_int a / of_int b"
  proof (rule frac_le)
    from la have "(of_int (2 ^ nat (bitlen a - 1)) :: rat) \<le> of_int a"
      by (subst of_int_le_iff)
    then show "(2::rat) ^ nat (bitlen a - 1) \<le> of_int a" by simp
    from lb have "(of_int b :: rat) < of_int (2 ^ nat (bitlen b))"
      by (subst of_int_less_iff)
    then show "(of_int b :: rat) \<le> 2 ^ nat (bitlen b)" by simp
    show "(0::rat) < of_int b" using b by simp
    show "(0::rat) \<le> of_int a" using a by simp
  qed
  finally have "pow2 (k - 1) \<le> q" using q by simp
  then show ?thesis
    using ab by (simp add: ilog2_def k_def Let_def)
qed

lemma round_half_even_le: "of_int (round_half_even x) \<le> x + 1 / 2"
proof -
  have f: "of_int \<lfloor>x\<rfloor> \<le> x" by simp
  show ?thesis
    unfolding round_half_even_def Let_def using f
    by (auto; linarith)
qed

lemma round_half_even_ge: "x - 1 / 2 \<le> of_int (round_half_even x)"
proof -
  have f: "x < of_int \<lfloor>x\<rfloor> + 1" by linarith
  show ?thesis
    unfolding round_half_even_def Let_def using f
    by (auto; linarith)
qed

lemma round_half_even_nonneg: "0 \<le> x \<Longrightarrow> 0 \<le> round_half_even x"
  by (auto simp: round_half_even_def Let_def)

lemma round_half_even_le_int:
  assumes "x \<le> of_int N"
  shows "round_half_even x \<le> N"
proof (cases "\<lfloor>x\<rfloor> < N")
  case True
  then show ?thesis by (auto simp: round_half_even_def Let_def)
next
  case False
  moreover have "\<lfloor>x\<rfloor> \<le> N" using assms floor_mono [of x "of_int N"] by simp
  ultimately have "\<lfloor>x\<rfloor> = N" by simp
  moreover from this assms have "x = of_int N"
    using of_int_floor_le [of x] by linarith
  ultimately show ?thesis by (simp add: round_half_even_def Let_def)
qed

text \<open>
  What \<open>float_round\<close> returns, for a magnitude below the overflow threshold: a value
  within half a unit in the last place, which is at most \<open>x / 2 ^ 53\<close> in the normal
  range and \<open>1 / 2 ^ 1075\<close> below it.
\<close>

lemma float_round_spec:
  assumes "0 \<le> x" and "x \<le> pow2 1023"
  obtains v where "0 \<le> v" and "\<bar>v - x\<bar> \<le> x / 2 ^ 53 + 1 / 2 ^ 1075"
    and "x \<le> 1 \<Longrightarrow> v \<le> 1"
    and "float_round neg x =
           (if v = 0 then (if neg then NegZero else Finite 0)
            else Finite (if neg then - v else v))"
proof (cases "x = 0")
  case True
  show ?thesis
    by (rule that [of 0]) (simp_all add: True float_round_def)
next
  case False
  with assms(1) have xp: "0 < x" by simp
  define e where "e = max (ilog2 x) (- 1022)"
  define u where "u = pow2 (e - 52)"
  define v where "v = of_int (round_half_even (x / u)) * u"
  have u: "0 < u" by (simp add: u_def pow2_pos)
  have v0: "0 \<le> v"
    unfolding v_def using u xp by (simp add: round_half_even_nonneg)
  have "v \<le> (x / u + 1 / 2) * u"
    unfolding v_def using round_half_even_le [of "x / u"] u by (simp add: mult_right_mono)
  also have "\<dots> = x + u / 2" using u by (simp add: field_simps)
  finally have up: "v \<le> x + u / 2" .
  have "(x / u - 1 / 2) * u \<le> v"
    unfolding v_def using round_half_even_ge [of "x / u"] u by (simp add: mult_right_mono)
  also have "(x / u - 1 / 2) * u = x - u / 2" using u by (simp add: field_simps)
  finally have lo: "x - u / 2 \<le> v" .
  have half: "u / 2 \<le> x / 2 ^ 53 + 1 / 2 ^ 1075" and hb: "u / 2 < pow2 1023"
  proof -
    show "u / 2 \<le> x / 2 ^ 53 + 1 / 2 ^ 1075"
    proof (cases "- 1022 \<le> ilog2 x")
      case True
      then have "e = ilog2 x" by (simp add: e_def)
      then have "pow2 e \<le> x" using ilog2_lower [OF xp] by simp
      moreover have "u = pow2 e / pow2 52" by (simp add: u_def pow2_diff)
      moreover have "pow2 52 = 2 ^ 52" by (simp add: pow2_def)
      ultimately have "u \<le> x / 2 ^ 52" by (simp add: divide_right_mono)
      then have "u / 2 \<le> x / 2 ^ 53" by simp
      then show ?thesis by (simp add: add_increasing2)
    next
      case False
      then have "e = - 1022" by (simp add: e_def)
      then have "u = 1 / 2 ^ 1074" by (simp add: u_def pow2_def)
      then have "u / 2 = 1 / 2 ^ 1075" by simp
      with xp show ?thesis by simp
    qed
    show "u / 2 < pow2 1023"
    proof (cases "- 1022 \<le> ilog2 x")
      case True
      then have "e = ilog2 x" by (simp add: e_def)
      then have "pow2 e \<le> x" using ilog2_lower [OF xp] by simp
      moreover have "u \<le> pow2 e" unfolding u_def by (rule pow2_mono) simp
      moreover have "u / 2 < u" using u by simp
      ultimately show ?thesis using assms(2) by linarith
    next
      case False
      then have "e = - 1022" by (simp add: e_def)
      then have "u \<le> pow2 1023" unfolding u_def by (intro pow2_mono) simp
      moreover have "u / 2 < u" using u by simp
      ultimately show ?thesis by linarith
    qed
  qed
  from up hb assms(2) have "v < 2 * pow2 1023" by linarith
  also have "2 * pow2 1023 = pow2 1024" using pow2_Suc [of 1023] by simp
  finally have nov: "\<not> pow2 1024 \<le> v" by simp
  have r: "float_round neg x =
           (if v = 0 then (if neg then NegZero else Finite 0)
            else Finite (if neg then - v else v))"
    using False nov
    by (simp add: float_round_def Let_def e_def [symmetric] u_def [symmetric] v_def [symmetric])
  have err: "\<bar>v - x\<bar> \<le> x / 2 ^ 53 + 1 / 2 ^ 1075"
    using up lo half by (simp add: abs_le_iff)
  have le1: "v \<le> 1" if "x \<le> 1"
  proof -
    have "e \<le> 0"
    proof (cases "- 1022 \<le> ilog2 x")
      case True
      then have "e = ilog2 x" by (simp add: e_def)
      then have "pow2 e \<le> x" using ilog2_lower [OF xp] by simp
      with that have le: "pow2 e \<le> 1" by simp
      show ?thesis
      proof (rule ccontr)
        assume "\<not> e \<le> 0"
        then have "pow2 1 \<le> pow2 e" by (intro pow2_mono) simp
        with le show False by (simp add: pow2_def)
      qed
    next
      case False
      then show ?thesis by (simp add: e_def)
    qed
    then have ui: "u = 1 / 2 ^ nat (52 - e)"
      by (simp add: u_def pow2_def)
    define N :: int where "N = 2 ^ nat (52 - e)"
    have uN: "u = 1 / of_int N" by (simp add: ui N_def)
    have Np: "0 < N" by (simp add: N_def)
    have "x / u = x * of_int N" by (simp add: uN)
    also have "\<dots> \<le> of_int N" using that Np by (simp add: mult_le_cancel_right1)
    finally have "round_half_even (x / u) \<le> N" by (rule round_half_even_le_int)
    then have "(of_int (round_half_even (x / u)) :: rat) \<le> of_int N" by (subst of_int_le_iff)
    then have "v \<le> of_int N * u" unfolding v_def using u by (simp add: mult_right_mono)
    also have "of_int N * u = 1" using Np by (simp add: uN)
    finally show ?thesis .
  qed
  show ?thesis by (rule that [OF v0 err le1 r])
qed

subsection \<open>load_images_and_labels\<close>

lemma one_le_pow2_1023: "1 \<le> pow2 1023"
proof -
  have "pow2 0 = 1" by (simp add: pow2_def)
  with pow2_mono [of 0 1023] show ?thesis by simp
qed

lemma float_truediv_255_spec:
  assumes "0 \<le> q" and "q \<le> 255"
  shows "\<exists>r. float_truediv (Finite q) 255 = Finite r \<and> 0 \<le> r \<and> r \<le> 1 \<and>
             \<bar>r - q / 255\<bar> \<le> q / 255 / 2 ^ 53 + 1 / 2 ^ 1075"
proof -
  from assms have x: "0 \<le> q / 255" "q / 255 \<le> 1" by simp_all
  from x(2) one_le_pow2_1023 have le: "q / 255 \<le> pow2 1023" by (rule order_trans)
  show ?thesis
  proof (rule float_round_spec [OF x(1) le, of False])
    fix v
    assume v: "0 \<le> v" "\<bar>v - q / 255\<bar> \<le> q / 255 / 2 ^ 53 + 1 / 2 ^ 1075"
      "q / 255 \<le> 1 \<Longrightarrow> v \<le> 1"
      "float_round False (q / 255) =
         (if v = 0 then (if False then NegZero else Finite 0)
          else Finite (if False then - v else v))"
    from v(4) have "float_round False (q / 255) = Finite v" by (cases "v = 0") simp_all
    with assms(1) have r: "float_truediv (Finite q) 255 = Finite v" by simp
    from v(3) x(2) have "v \<le> 1" .
    with r v(1,2) show ?thesis by (intro exI [of _ v] conjI)
  qed
qed

lemma float_truediv_255: "float_truediv (Finite 255) 255 = Finite 1"
  by code_simp

text \<open>
  C5.  When the loader returns the data, a call with \<open>normalize\<close> true (passed, or left
  to its default) returns them as \<open>float64\<close>, of the same shape, with every element
  divided by 255.0: an element \<open>q\<close> between 0 and 255 becomes the float nearest to
  \<open>q / 255\<close>, which lies between 0 and 1 and differs from \<open>q / 255\<close> by no more than
  the rounding of a float allows, so that elements that are all 255 become all 1.0.  A
  call with \<open>normalize\<close> false returns the data as loaded.
\<close>

theorem normalize_divides_by_255:
  assumes "sdl_load (image_size argv) (image_size argv) (grayscale argv) imagepaths
             = Inr (data, labels)"
  shows "snd (load_images_and_labels sdl_load argv imagepaths (Some True))
           = Inr (data\<lparr>dtype := Float64,
                       items := map (\<lambda>x. float_truediv x 255) (items data)\<rparr>, labels) \<and>
         snd (load_images_and_labels sdl_load argv imagepaths None)
           = snd (load_images_and_labels sdl_load argv imagepaths (Some True)) \<and>
         (items data = replicate k (Finite 255) \<longrightarrow>
            snd (load_images_and_labels sdl_load argv imagepaths (Some True))
              = Inr (data\<lparr>dtype := Float64, items := replicate k (Finite 1)\<rparr>, labels)) \<and>
         snd (load_images_and_labels sdl_load argv imagepaths (Some False)) = Inr (data, labels) \<and>
         (\<exists>out. snd (load_images_and_labels sdl_load argv imagepaths (Some True))
                  = Inr (out, labels) \<and>
                dtype out = Float64 \<and> shape out = shape data \<and>
                length (items out) = length (items data) \<and>
                (\<forall>i q. i < length (items data) \<and> items data ! i = Finite q \<and>
                       0 \<le> q \<and> q \<le> 255 \<longrightarrow>
                   (\<exists>r. items out ! i = Finite r \<and> 0 \<le> r \<and> r \<le> 1 \<and>
                        \<bar>r - q / 255\<bar> \<le> q / 255 / 2 ^ 53 + 1 / 2 ^ 1075)))"
proof -
  let ?out = "data\<lparr>dtype := Float64, items := map (\<lambda>x. float_truediv x 255) (items data)\<rparr>"
  have a: "snd (load_images_and_labels sdl_load argv imagepaths (Some True)) = Inr (?out, labels)"
    using assms
    by (simp add: load_images_and_labels_def array_truediv_def astype_float_def
          del: float_truediv.simps)
  have b: "snd (load_images_and_labels sdl_load argv imagepaths None)
           = snd (load_images_and_labels sdl_load argv imagepaths (Some True))"
    by (simp add: load_images_and_labels_def)
  have c: "items data = replicate k (Finite 255) \<longrightarrow>
           snd (load_images_and_labels sdl_load argv imagepaths (Some True))
              = Inr (data\<lparr>dtype := Float64, items := replicate k (Finite 1)\<rparr>, labels)"
    using a by (simp add: float_truediv_255 del: float_truediv.simps)
  have d: "snd (load_images_and_labels sdl_load argv imagepaths (Some False)) = Inr (data, labels)"
    using assms by (simp add: load_images_and_labels_def)
  have e: "\<forall>i q. i < length (items data) \<and> items data ! i = Finite q \<and> 0 \<le> q \<and> q \<le> 255 \<longrightarrow>
             (\<exists>r. items ?out ! i = Finite r \<and> 0 \<le> r \<and> r \<le> 1 \<and>
                  \<bar>r - q / 255\<bar> \<le> q / 255 / 2 ^ 53 + 1 / 2 ^ 1075)"
  proof (intro allI impI)
    fix i q
    assume h: "i < length (items data) \<and> items data ! i = Finite q \<and> 0 \<le> q \<and> q \<le> 255"
    then have "items ?out ! i = float_truediv (Finite q) 255"
      by (simp del: float_truediv.simps)
    with float_truediv_255_spec [of q] h
    show "\<exists>r. items ?out ! i = Finite r \<and> 0 \<le> r \<and> r \<le> 1 \<and>
               \<bar>r - q / 255\<bar> \<le> q / 255 / 2 ^ 53 + 1 / 2 ^ 1075"
      by (simp only:)
  qed
  have f: "dtype ?out = Float64" "shape ?out = shape data"
    "length (items ?out) = length (items data)" by simp_all
  have g: "\<exists>out. snd (load_images_and_labels sdl_load argv imagepaths (Some True))
                  = Inr (out, labels) \<and>
                dtype out = Float64 \<and> shape out = shape data \<and>
                length (items out) = length (items data) \<and>
                (\<forall>i q. i < length (items data) \<and> items data ! i = Finite q \<and>
                       0 \<le> q \<and> q \<le> 255 \<longrightarrow>
                   (\<exists>r. items out ! i = Finite r \<and> 0 \<le> r \<and> r \<le> 1 \<and>
                        \<bar>r - q / 255\<bar> \<le> q / 255 / 2 ^ 53 + 1 / 2 ^ 1075))"
    by (rule exI [of _ ?out], intro conjI) (rule a f e)+
  show ?thesis
    by (intro conjI) (rule a b c d g)+
qed

theorem normalize_divides_by_255_witness:
  "snd (load_images_and_labels
          (\<lambda>w h g ps. Inr (\<lparr>dtype = UInt8, shape = [1, 2, 2, 3],
                                items = replicate 12 (Finite 255)\<rparr>, [''cats'']))
          default_namespace [''data/cats/1.jpg''] (Some True))
     = Inr (\<lparr>dtype = Float64, shape = [1, 2, 2, 3], items = replicate 12 (Finite 1)\<rparr>,
            [''cats'']) \<and>
   snd (load_images_and_labels
          (\<lambda>w h g ps. Inr (\<lparr>dtype = UInt8, shape = [1, 2, 2, 3],
                                items = replicate 12 (Finite 255)\<rparr>, [''cats'']))
          default_namespace [''data/cats/1.jpg''] (Some False))
     = Inr (\<lparr>dtype = UInt8, shape = [1, 2, 2, 3], items = replicate 12 (Finite 255)\<rparr>,
            [''cats''])"
proof -
  note t = normalize_divides_by_255
          [of "\<lambda>w h g ps. Inr (\<lparr>dtype = UInt8, shape = [1, 2, 2, 3],
                                    items = replicate 12 (Finite 255)\<rparr>, [''cats''])"
              default_namespace "[''data/cats/1.jpg'']"
              "\<lparr>dtype = UInt8, shape = [1, 2, 2, 3], items = replicate 12 (Finite 255)\<rparr>"
              "[''cats'']" 12, OF refl]
  from t [THEN conjunct2, THEN conjunct2, THEN conjunct1]
       t [THEN conjunct2, THEN conjunct2, THEN conjunct2, THEN conjunct1]
  show ?thesis by simp
qed

text \<open>
  C9.  The function never reads \<open>argv.normalize\<close>: whatever that flag is, the call
  prints and returns the same.  Whether the data are divided is decided by the
  parameter \<open>normalize\<close> alone, and a call that does not pass it behaves as one that
  passes \<open>True\<close>; so with the flag false and the parameter left out the data are still
  divided, and with the flag true and the parameter false they are not.
\<close>

theorem normalize_flag_not_read:
  "load_images_and_labels sdl_load (argv\<lparr>normalize := b\<rparr>) imagepaths normalize_arg
     = load_images_and_labels sdl_load argv imagepaths normalize_arg \<and>
   load_images_and_labels sdl_load argv imagepaths None
     = load_images_and_labels sdl_load argv imagepaths (Some True) \<and>
   load_images_and_labels (\<lambda>w h g ps. Inr (data, labels)) (argv\<lparr>normalize := False\<rparr>)
       imagepaths None
     = ([''[INFO] loading images...'', ''[INFO] normalizing data...''],
        Inr (array_truediv (astype_float data) 255, labels)) \<and>
   load_images_and_labels (\<lambda>w h g ps. Inr (data, labels)) (argv\<lparr>normalize := True\<rparr>)
       imagepaths (Some False)
     = ([''[INFO] loading images...''], Inr (data, labels))"
  by (simp add: load_images_and_labels_def)

subsection \<open>write_training_report\<close>



lemma format_width_iff: "(\<exists>s. format_width w v = Inr s) \<longleftrightarrow> formattable v"
  by (cases v) simp_all






















subsection \<open>build_architecture\<close>

lemma build_architecture_falls_through:
  "architecture argv \<notin> Some ` set supported_names \<Longrightarrow>
   build_architecture argv width height depth classes = Inl (UnboundLocalError ''model'')"
  by (auto simp: build_architecture_def supported_names_def)

lemma build_architecture_returns_iff:
  "(\<exists>m. build_architecture argv width height depth classes = Inr m) \<longleftrightarrow>
   architecture argv \<in> Some ` set supported_names"
  by (auto simp: build_architecture_def supported_names_def)

text \<open>
  C1.  A name outside \<open>lenet\<close>, \<open>karpathynet\<close>, \<open>minivgg\<close>, \<open>vgg16\<close> should fail with
  an \<open>InvalidArchitecture\<close> error.  The chain has no \<open>else\<close> and the module raises no
  error of its own: at the name \<open>resnet\<close> no branch is taken, and what ends the call is
  the \<open>UnboundLocalError\<close> of \<open>return model\<close> on the unassigned local, whose class is not
  \<open>InvalidArchitecture\<close>.
\<close>

theorem build_architecture_resnet:
  "build_architecture (argv\<lparr>architecture := Some ''resnet''\<rparr>) 64 64 3 10
     = Inl (UnboundLocalError ''model'') \<and>
   exception_class (UnboundLocalError ''model'') \<noteq> ''InvalidArchitecture''"
  by (simp add: build_architecture_def)

text \<open>
  C2.  The program should offer five architectures, as the module's \<open>description\<close>
  lists them: MiniVGG, LeNet, AlexNet, KarpathyNet and VGG16.  The chain builds a model
  for four names only; it has no branch for AlexNet, and at the name \<open>alexnet\<close> the call
  ends in the \<open>UnboundLocalError\<close>.
\<close>

theorem build_architecture_alexnet:
  "build_architecture (argv\<lparr>architecture := Some ''alexnet''\<rparr>) width height depth classes
     = Inl (UnboundLocalError ''model'') \<and>
   {name. \<exists>m. build_architecture (argv\<lparr>architecture := Some name\<rparr>) width height depth classes
             = Inr m} = set supported_names \<and>
   card (set supported_names) = 4"
  by (auto simp: build_architecture_def supported_names_def)

text \<open>
  C4.  With the architecture \<open>vgg16\<close> the call is \<open>VGG16.build()\<close>, without arguments:
  whatever the width, height, depth and class count, the model is the same, and its
  geometry is 224 x 224 x 3 with 1000 classes.
\<close>

theorem build_architecture_vgg16_fixed:
  "build_architecture (argv\<lparr>architecture := Some ''vgg16''\<rparr>) width height depth classes
     = Inr VGG16_build \<and>
   declared_geometry VGG16_build = ((224, 224, 3), 1000)"
  by (simp add: build_architecture_def)

text \<open>
  C10.  The comparison is the equality of strings, case included: a name that is not
  one of the four lower-case literals, even if its lower-casing is (\<open>LeNet\<close>, \<open>VGG16\<close>),
  takes no branch, so that no model is built and the call ends in the
  \<open>UnboundLocalError\<close>.
\<close>

theorem build_architecture_case_sensitive:
  "name \<notin> set supported_names \<Longrightarrow> map ascii_lower name \<in> set supported_names \<Longrightarrow>
   build_architecture (argv\<lparr>architecture := Some name\<rparr>) width height depth classes
     = Inl (UnboundLocalError ''model'')"
  by (auto simp: build_architecture_def supported_names_def)

theorem build_architecture_case_sensitive_witness:
  "''LeNet'' \<notin> set supported_names \<and> map ascii_lower ''LeNet'' \<in> set supported_names \<and>
   build_architecture (default_namespace\<lparr>architecture := Some ''LeNet''\<rparr>) 64 64 3 10
     = Inl (UnboundLocalError ''model'') \<and>
   ''VGG16'' \<notin> set supported_names \<and> map ascii_lower ''VGG16'' \<in> set supported_names \<and>
   build_architecture (default_namespace\<lparr>architecture := Some ''VGG16''\<rparr>) 224 224 3 1000
     = Inl (UnboundLocalError ''model'')"
  using build_architecture_case_sensitive [of "''LeNet''" default_namespace 64 64 3 10]
        build_architecture_case_sensitive [of "''VGG16''" default_namespace 224 224 3 1000]
  by (simp add: supported_names_def ascii_lower_def)

end
